theory Spec2Isabelle
  imports Main "HOL-Library.Char_ord" "HOL-Library.List_Lexorder"
begin

section \<open>Strings of the Go runtime used by package starstruct\<close>

text \<open>
  Go strings are byte sequences and \<open>a < b\<close> on strings is the bytewise lexicographic
  order; \<open>string\<close> with the orders of \<open>Char_ord\<close> and \<open>List_Lexorder\<close> is the same order.
\<close>

definition HasPrefix :: "string \<Rightarrow> string \<Rightarrow> bool" where
  "HasPrefix s p = (take (length p) s = p)"

definition TrimPrefix :: "string \<Rightarrow> string \<Rightarrow> string" where
  "TrimPrefix s p = (if HasPrefix s p then drop (length p) s else s)"

text \<open>\<open>strings.SplitN(s, ".", 2)\<close>: one part when there is no dot, else the text before
  the first dot and all the text after it.\<close>

definition SplitN2 :: "string \<Rightarrow> string list" where
  "SplitN2 s = (case dropWhile (\<lambda>c. c \<noteq> CHR ''.'') s of
                  [] \<Rightarrow> [s]
                | _ # rest \<Rightarrow> [takeWhile (\<lambda>c. c \<noteq> CHR ''.'') s, rest])"

text \<open>\<open>strings.Contains\<close>.\<close>

fun Contains :: "string \<Rightarrow> string \<Rightarrow> bool" where
  "Contains [] sub = (sub = [])"
| "Contains (c # cs) sub = (HasPrefix (c # cs) sub \<or> Contains cs sub)"

definition isDigit :: "char \<Rightarrow> bool" where
  "isDigit c = (CHR ''0'' \<le> c \<and> c \<le> CHR ''9'')"

definition digitVal :: "char \<Rightarrow> int" where
  "digitVal c = int (of_char c) - 48"

definition decVal :: "string \<Rightarrow> int" where
  "decVal s = foldl (\<lambda>n c. n * 10 + digitVal c) 0 s"

text \<open>\<open>strconv.Atoi\<close> on a 64-bit platform: an optional sign, then one or more decimal
  digits; anything else, and a value outside the range of \<open>int\<close>, is an error (\<open>None\<close>).\<close>

definition Atoi :: "string \<Rightarrow> int option" where
  "Atoi s =
     (case s of
        [] \<Rightarrow> None
      | c # cs \<Rightarrow>
          (let neg = (c = CHR ''-'');
               ds = (if c = CHR ''-'' \<or> c = CHR ''+'' then cs else s)
           in if ds = [] \<or> \<not> list_all isDigit ds then None
              else if neg then (if decVal ds > 2 ^ 63 then None else Some (- decVal ds))
              else (if decVal ds > 2 ^ 63 - 1 then None else Some (decVal ds))))"

definition digitChar :: "nat \<Rightarrow> char" where
  "digitChar d = char_of (48 + d)"

fun natToStr :: "nat \<Rightarrow> string" where
  "natToStr n = (if n < 10 then [digitChar n] else natToStr (n div 10) @ [digitChar (n mod 10)])"

declare natToStr.simps [simp del]

text \<open>\<open>strconv.Itoa\<close>.\<close>

definition Itoa :: "int \<Rightarrow> string" where
  "Itoa i = (if i < 0 then CHR ''-'' # natToStr (nat (- i)) else natToStr (nat i))"

text \<open>\<open>fmt.Sprintf("%0<w>d", j)\<close> for a non-negative \<open>j\<close>: the decimal digits, padded on the
  left with zeros up to width \<open>w\<close>.\<close>

definition SprintfPad :: "nat \<Rightarrow> nat \<Rightarrow> string" where
  "SprintfPad w j = replicate (w - length (natToStr j)) (CHR ''0'') @ natToStr j"

section \<open>\<open>sort.Slice\<close>\<close>

text \<open>
  \<open>sort.Slice\<close> is not stable. The Go runtime sorts slices of at most twelve elements by
  insertion sort: element \<open>i\<close> moves left while it is \<open>less\<close> than its left neighbour.
  \<open>insertLeft\<close> works on the already processed prefix, held in reverse.
\<close>

fun insertLeft :: "('a \<Rightarrow> 'a \<Rightarrow> bool) \<Rightarrow> 'a \<Rightarrow> 'a list \<Rightarrow> 'a list" where
  "insertLeft lt x [] = [x]"
| "insertLeft lt x (p # ps) = (if lt x p then p # insertLeft lt x ps else x # p # ps)"

definition sortSlice :: "('a \<Rightarrow> 'a \<Rightarrow> bool) \<Rightarrow> 'a list \<Rightarrow> 'a list" where
  "sortSlice lt xs = rev (foldl (\<lambda>acc x. insertLeft lt x acc) [] xs)"

section \<open>Failures\<close>

text \<open>A Go call returns an \<open>error\<close> value or panics; both are results of the model.\<close>

datatype failure = Error string | Panic string

section \<open>The flat mapping and the table assembler\<close>

text \<open>
  The flat mapping \<open>map[string]string\<close> is an association list with distinct keys; a
  \<open>range\<close> over the map visits the entries in the order of the list, so a statement
  for all lists is a statement for every iteration order of the Go map.
\<close>

type_synonym fieldMap = "(string \<times> string) list"

definition mapGet :: "fieldMap \<Rightarrow> string \<Rightarrow> string" where
  "mapGet m k = (case map_of m k of None \<Rightarrow> [] | Some v \<Rightarrow> v)"

definition mapSet :: "fieldMap \<Rightarrow> string \<Rightarrow> string \<Rightarrow> fieldMap" where
  "mapSet m k v = (if k \<in> fst ` set m then map (\<lambda>(k', v'). if k' = k then (k', v) else (k', v')) m
                   else m @ [(k, v)])"

definition matchesHeader :: "string \<Rightarrow> string \<Rightarrow> bool" where
  "matchesHeader key header = (key = header \<or> HasPrefix key (header @ ''.''))"

text \<open>The comparator of \<open>sortGroupKeys\<close>.\<close>

definition groupLess :: "string \<Rightarrow> string \<Rightarrow> string \<Rightarrow> bool" where
  "groupLess header a b =
     (if a = header \<and> b \<noteq> header then True
      else if b = header \<and> a \<noteq> header then False
      else
        (let aSuffix = TrimPrefix a (header @ ''.'');
             bSuffix = TrimPrefix b (header @ ''.'');
             partsA = SplitN2 aSuffix;
             partsB = SplitN2 bSuffix
         in case (Atoi (hd partsA), Atoi (hd partsB)) of
              (Some nA, Some nB) \<Rightarrow>
                (if nA \<noteq> nB then nA < nB
                 else if length partsA > 1 \<and> length partsB > 1 then partsA ! 1 < partsB ! 1
                 else length partsA < length partsB)
            | _ \<Rightarrow> a < b))"

definition sortGroupKeys :: "string \<Rightarrow> string list \<Rightarrow> string list" where
  "sortGroupKeys header keys = sortSlice (groupLess header) keys"

definition headerGroup :: "fieldMap \<Rightarrow> string \<Rightarrow> string list" where
  "headerGroup m header = sortGroupKeys header (filter (\<lambda>key. matchesHeader key header) (map fst m))"

definition leftovers :: "fieldMap \<Rightarrow> string list \<Rightarrow> string list" where
  "leftovers m headers =
     sortSlice (<) (filter (\<lambda>key. \<not> list_ex (matchesHeader key) headers) (map fst m))"

text \<open>\<open>mapToSliceAndUpdateFields\<close> returns the rows and the list it stores into \<open>*headers\<close>;
  a nil \<open>headers\<close> pointer is dereferenced by the first loop.\<close>

definition mapToSliceAndUpdateFields ::
  "fieldMap \<Rightarrow> string list option \<Rightarrow> failure + (string list list \<times> string list)" where
  "mapToSliceAndUpdateFields m headers =
     (case headers of
        None \<Rightarrow> Inl (Panic ''nil pointer dereference'')
      | Some hs \<Rightarrow>
          (let newFields = concat (map (headerGroup m) hs) @ leftovers m hs
           in Inr (map (\<lambda>key. [key, mapGet m key]) newFields, newFields)))"

section \<open>Values as package \<open>reflect\<close> shows them\<close>

text \<open>
  A struct field as \<open>reflect.StructField\<close> describes it: the declared name, the values
  of \<open>Tag.Get\<close> for the keys \<open>json\<close>, \<open>url\<close> and \<open>xml\<close>, and whether the field is embedded.
\<close>

record StructField =
  Name :: string
  jsonTag :: string
  urlTag :: string
  xmlTag :: string
  Anonymous :: bool

datatype kind = KInvalid | KString | KInt | KBool | KInterface | KPtr | KSlice | KArray | KMap | KStruct

text \<open>
  Types and values. \<open>time.Time\<close> is a struct with a \<open>String\<close> method whose fields are all
  unexported: its value carries the text \<open>fmt.Sprint\<close> prints for it and its fields. A non-nil pointer carries its address, which is
  what \<open>fmt.Sprint\<close> prints for a pointer to a scalar. A map carries its entries with the
  keys already rendered by \<open>fmt.Sprint\<close>, in iteration order. The numeric kinds other
  than \<open>int\<close> take the same branches as \<open>int\<close> everywhere and are left out.
\<close>

datatype ty = TString | TInt | TBool | TTime | TIface | TPtr ty | TSlice ty | TArray nat ty
  | TMap ty | TStruct "(StructField \<times> ty) list"

datatype val = VInvalid | VString string | VInt int | VBool bool | VTime string "(StructField \<times> val) list"
  | VNilIface | VIface val | VNilPtr ty | VPtr nat val
  | VSlice ty "val list" | VArray ty "val list" | VMap ty "(string \<times> val) list"
  | VStruct "(StructField \<times> val) list"

fun kindOf :: "val \<Rightarrow> kind" where
  "kindOf VInvalid = KInvalid"
| "kindOf (VString _) = KString"
| "kindOf (VInt _) = KInt"
| "kindOf (VBool _) = KBool"
| "kindOf (VTime _ _) = KStruct"
| "kindOf VNilIface = KInterface"
| "kindOf (VIface _) = KInterface"
| "kindOf (VNilPtr _) = KPtr"
| "kindOf (VPtr _ _) = KPtr"
| "kindOf (VSlice _ _) = KSlice"
| "kindOf (VArray _ _) = KArray"
| "kindOf (VMap _ _) = KMap"
| "kindOf (VStruct _) = KStruct"

fun tyKind :: "ty \<Rightarrow> kind" where
  "tyKind TString = KString"
| "tyKind TInt = KInt"
| "tyKind TBool = KBool"
| "tyKind TTime = KStruct"
| "tyKind TIface = KInterface"
| "tyKind (TPtr _) = KPtr"
| "tyKind (TSlice _) = KSlice"
| "tyKind (TArray _ _) = KArray"
| "tyKind (TMap _) = KMap"
| "tyKind (TStruct _) = KStruct"

fun kindName :: "kind \<Rightarrow> string" where
  "kindName KInvalid = ''invalid''"
| "kindName KString = ''string''"
| "kindName KInt = ''int''"
| "kindName KBool = ''bool''"
| "kindName KInterface = ''interface''"
| "kindName KPtr = ''ptr''"
| "kindName KSlice = ''slice''"
| "kindName KArray = ''array''"
| "kindName KMap = ''map''"
| "kindName KStruct = ''struct''"

definition unexported :: "string \<Rightarrow> StructField" where
  "unexported n = \<lparr>Name = n, jsonTag = [], urlTag = [], xmlTag = [], Anonymous = False\<rparr>"

text \<open>\<open>reflect.Zero\<close>. The zero \<open>time.Time\<close> has a zero wall clock and a nil location.\<close>

fun zeroVal :: "ty \<Rightarrow> val" where
  "zeroVal TString = VString []"
| "zeroVal TInt = VInt 0"
| "zeroVal TBool = VBool False"
| "zeroVal TTime = VTime ''0001-01-01 00:00:00 +0000 UTC''
     [(unexported ''wall'', VInt 0), (unexported ''ext'', VInt 0),
      (unexported ''loc'', VNilPtr (TStruct []))]"
| "zeroVal TIface = VNilIface"
| "zeroVal (TPtr t) = VNilPtr t"
| "zeroVal (TSlice t) = VSlice t []"
| "zeroVal (TArray n t) = VArray t (replicate n (zeroVal t))"
| "zeroVal (TMap t) = VMap t []"
| "zeroVal (TStruct fs) = VStruct (map (\<lambda>(f, t). (f, zeroVal t)) fs)"

text \<open>\<open>IsNil\<close> of a pointer or interface value, \<open>Len\<close> of a slice, array or map.\<close>

fun IsNil :: "val \<Rightarrow> bool" where
  "IsNil VNilIface = True"
| "IsNil (VNilPtr _) = True"
| "IsNil _ = False"

fun Len :: "val \<Rightarrow> nat" where
  "Len (VSlice _ xs) = length xs"
| "Len (VArray _ xs) = length xs"
| "Len (VMap _ es) = length es"
| "Len _ = 0"

text \<open>\<open>reflect.ValueOf(v.Interface())\<close>: the value held by an interface slot, the zero
  \<open>Value\<close> for a nil interface.\<close>

fun ValueOfInterface :: "val \<Rightarrow> val" where
  "ValueOfInterface (VIface w) = w"
| "ValueOfInterface VNilIface = VInvalid"
| "ValueOfInterface v = v"

text \<open>
  \<open>DerefPointers\<close>: the loop unwraps a pointer and then, in the same round, an interface.
  The \<open>switch\<close> under \<open>IsNil\<close> looks for scalar kinds in a value whose kind is pointer or
  interface, so none of its cases is taken; \<open>Elem\<close> of a nil pointer or interface is the
  zero \<open>Value\<close>, which ends the loop. The error result is always nil and is left out.
\<close>

fun DerefPointers :: "val \<Rightarrow> val" where
  "DerefPointers (VNilPtr t) = VInvalid"
| "DerefPointers VNilIface = VInvalid"
| "DerefPointers (VPtr a VNilIface) = VInvalid"
| "DerefPointers (VPtr a (VIface u)) = DerefPointers u"
| "DerefPointers (VPtr a w) = DerefPointers w"
| "DerefPointers (VIface u) = DerefPointers u"
| "DerefPointers v = v"

section \<open>Field keys\<close>

definition joinPrefixKey :: "string \<Rightarrow> string \<Rightarrow> string" where
  "joinPrefixKey prefix key =
     (if prefix = [] \<and> key = [] then []
      else if prefix = [] then key
      else if key = [] then prefix
      else prefix @ ''.'' @ key)"

definition shouldInline :: "StructField \<Rightarrow> bool" where
  "shouldInline field = Contains (jsonTag field) '',inline''"

definition getFirstTag :: "string \<Rightarrow> string" where
  "getFirstTag tag = takeWhile (\<lambda>c. c \<noteq> CHR '','') tag"

text \<open>\<open>camelKey\<close>: an ASCII capital is lowered in place; other first bytes go through
  \<open>unicode.ToLower\<close>, which leaves every other ASCII byte as it is.\<close>

definition camelKey :: "string \<Rightarrow> string" where
  "camelKey s =
     (case s of
        [] \<Rightarrow> []
      | c # cs \<Rightarrow> if CHR ''A'' \<le> c \<and> c \<le> CHR ''Z'' then char_of (of_char c + (32::nat)) # cs
                  else s)"

definition getMapKey :: "StructField \<Rightarrow> string" where
  "getMapKey field =
     (let jsonT = getFirstTag (jsonTag field);
          urlT = getFirstTag (urlTag field);
          xmlT = getFirstTag (xmlTag field)
      in if jsonT \<noteq> [] \<and> jsonT \<noteq> ''-'' then jsonT
         else if urlT \<noteq> [] \<and> urlT \<noteq> ''-'' then urlT
         else if xmlT \<noteq> [] \<and> xmlT \<noteq> ''-'' then xmlT
         else camelKey (Name field))"

text \<open>\<open>IsExported\<close>: the name starts with a capital letter (ASCII names).\<close>

definition IsExported :: "StructField \<Rightarrow> bool" where
  "IsExported field = (case Name field of [] \<Rightarrow> False | c # _ \<Rightarrow> CHR ''A'' \<le> c \<and> c \<le> CHR ''Z'')"

section \<open>\<open>fmt.Sprint\<close>\<close>

text \<open>The \<open>%v\<close> rendering of the values of the model.\<close>

fun joinSpace :: "string list \<Rightarrow> string" where
  "joinSpace [] = []"
| "joinSpace [x] = x"
| "joinSpace (x # xs) = x @ '' '' @ joinSpace xs"

definition hexChar :: "nat \<Rightarrow> char" where
  "hexChar d = (if d < 10 then char_of (48 + d) else char_of (87 + d))"

fun natToHex :: "nat \<Rightarrow> string" where
  "natToHex n = (if n < 16 then [hexChar n] else natToHex (n div 16) @ [hexChar (n mod 16)])"

declare natToHex.simps [simp del]

lemma size_list_insertLeft: "size_list f (insertLeft lt x ps) = size_list f (x # ps)"
  by (induction ps) auto

lemma size_list_foldl_insertLeft:
  "size_list f (foldl (\<lambda>acc x. insertLeft lt x acc) acc xs) = size_list f acc + size_list f xs"
  by (induction xs arbitrary: acc) (auto simp: size_list_insertLeft)

lemma size_list_rev: "size_list f (rev xs) = size_list f xs"
  by (induction xs) auto

lemma size_list_sortSlice: "size_list f (sortSlice lt xs) = size_list f xs"
  by (simp add: sortSlice_def size_list_rev size_list_foldl_insertLeft)

lemma set_insertLeft: "set (insertLeft lt x ps) = insert x (set ps)"
  by (induction ps) auto

lemma set_foldl_insertLeft:
  "set (foldl (\<lambda>acc x. insertLeft lt x acc) acc xs) = set acc \<union> set xs"
  by (induction xs arbitrary: acc) (auto simp: set_insertLeft)

lemma set_sortSlice [simp]: "set (sortSlice lt xs) = set xs"
  by (simp add: sortSlice_def set_foldl_insertLeft)

lemma size_DerefPointers: "size (DerefPointers v) \<le> size v"
  by (induction v rule: DerefPointers.induct) auto

lemma size_ValueOfInterface: "size (ValueOfInterface v) \<le> size v"
  by (cases v) auto

lemma size_entry_mem [termination_simp]:
  "(k, v) \<in> set es \<Longrightarrow> size v < Suc (size_list (size_prod (\<lambda>x. 0) size) es)"
  by (induction es) auto

fun SprintAt :: "bool \<Rightarrow> val \<Rightarrow> string" where
  "SprintAt outer VInvalid = ''<nil>''"
| "SprintAt outer (VString s) = s"
| "SprintAt outer (VInt i) = Itoa i"
| "SprintAt outer (VBool b) = (if b then ''true'' else ''false'')"
| "SprintAt outer (VTime s fs) = s"
| "SprintAt outer VNilIface = ''<nil>''"
| "SprintAt outer (VIface w) = SprintAt outer w"
| "SprintAt outer (VNilPtr t) = ''<nil>''"
| "SprintAt outer (VPtr a w) =
     (case w of
        VTime s fs \<Rightarrow> s
      | _ \<Rightarrow> if outer \<and> kindOf w \<in> {KArray, KSlice, KStruct, KMap} then ''&'' @ SprintAt False w
             else ''0x'' @ natToHex a)"
| "SprintAt outer (VSlice t xs) = ''['' @ joinSpace (map (SprintAt False) xs) @ '']''"
| "SprintAt outer (VArray t xs) = ''['' @ joinSpace (map (SprintAt False) xs) @ '']''"
| "SprintAt outer (VMap t es) =
     ''map['' @ joinSpace (map (\<lambda>(k, v). k @ '':'' @ SprintAt False v)
                            (sortSlice (\<lambda>a b. fst a < fst b) es)) @ '']''"
| "SprintAt outer (VStruct fs) = ''{'' @ joinSpace (map (\<lambda>(f, v). SprintAt False v) fs) @ ''}''"

definition Sprint :: "val \<Rightarrow> string" where
  "Sprint v = SprintAt True v"

section \<open>The flattener\<close>

definition sliceWidth :: "nat \<Rightarrow> nat" where
  "sliceWidth n = (let width = length (Itoa (int n - 1)) in if width < 2 then 2 else width)"

definition isComposite :: "kind \<Rightarrow> bool" where
  "isComposite k = (k = KMap \<or> k = KStruct \<or> k = KSlice \<or> k = KArray)"

definition flattenMeasure ::
  "((val \<times> string \<times> fieldMap) + ((StructField \<times> val) list \<times> string \<times> fieldMap)
    + (val list \<times> string \<times> fieldMap)) + ((nat \<times> nat \<times> val list \<times> string \<times> fieldMap)
    + ((string \<times> val) list \<times> string \<times> fieldMap) + ((string \<times> val) list \<times> string \<times> fieldMap))
   \<Rightarrow> nat \<times> nat" where
  "flattenMeasure c =
     (case c of
        Inl (Inl (item, _)) \<Rightarrow> (size item, 0)
      | Inl (Inr (Inl (fs, _))) \<Rightarrow> (size_list (size_prod (\<lambda>x. 0) size) fs, 0)
      | Inl (Inr (Inr (xs, _))) \<Rightarrow> (size_list size xs, 1)
      | Inr (Inl (_, _, xs, _)) \<Rightarrow> (size_list size xs, 0)
      | Inr (Inr (Inl (es, _))) \<Rightarrow> (size_list (size_prod (\<lambda>x. 0) size) es, 1)
      | Inr (Inr (Inr (es, _))) \<Rightarrow> (size_list (size_prod (\<lambda>x. 0) size) es, 0))"

lemma size_Deref_Value: "size (DerefPointers (ValueOfInterface v)) \<le> size v"
  using size_DerefPointers [of "ValueOfInterface v"] size_ValueOfInterface [of v] by linarith

lemma size_Deref_Struct:
  "DerefPointers (ValueOfInterface v) = VStruct fs \<Longrightarrow> size_list (size_prod (\<lambda>x. 0) size) fs < size v"
  using size_Deref_Value [of v] by simp

lemma size_Deref_Time:
  "DerefPointers (ValueOfInterface v) = VTime s fs \<Longrightarrow> size_list (size_prod (\<lambda>x. 0) size) fs < size v"
  using size_Deref_Value [of v] by simp

lemma size_Deref_Map:
  "DerefPointers (ValueOfInterface v) = VMap t es \<Longrightarrow> size_list (size_prod (\<lambda>x. 0) size) es < size v"
  using size_Deref_Value [of v] by simp

lemma size_Deref_Slice:
  "DerefPointers (ValueOfInterface v) = VSlice t xs \<Longrightarrow> size_list size xs < size v"
  using size_Deref_Value [of v] by simp

lemma size_Deref_less: "size v < n \<Longrightarrow> size (DerefPointers v) < n"
  using size_DerefPointers [of v] by simp

text \<open>
  \<open>FlattenNestedStructs\<close>, \<open>flattenSlice\<close> and \<open>flattenMap\<close> with their loops
  (\<open>flattenFields\<close>, \<open>flattenElems\<close>, \<open>flattenEntries\<close>). The map written through the
  pointer is passed along and returned. \<open>flattenMap\<close> sorts the keys and looks each one up;
  the keys of a map are distinct, so sorting the entries by key visits the same entries in
  the same order.
\<close>

function (sequential)
  FlattenNestedStructs :: "val \<Rightarrow> string \<Rightarrow> fieldMap \<Rightarrow> failure + fieldMap" and
  flattenFields :: "(StructField \<times> val) list \<Rightarrow> string \<Rightarrow> fieldMap \<Rightarrow> failure + fieldMap" and
  flattenSlice :: "val list \<Rightarrow> string \<Rightarrow> fieldMap \<Rightarrow> failure + fieldMap" and
  flattenElems :: "nat \<Rightarrow> nat \<Rightarrow> val list \<Rightarrow> string \<Rightarrow> fieldMap \<Rightarrow> failure + fieldMap" and
  flattenMap :: "(string \<times> val) list \<Rightarrow> string \<Rightarrow> fieldMap \<Rightarrow> failure + fieldMap" and
  flattenEntries :: "(string \<times> val) list \<Rightarrow> string \<Rightarrow> fieldMap \<Rightarrow> failure + fieldMap"
where
  "FlattenNestedStructs item prefix m =
     (case DerefPointers (ValueOfInterface item) of
        VInvalid \<Rightarrow> Inl (Panic ''reflect: call of reflect.Value.Type on zero Value'')
      | VStruct fs \<Rightarrow> flattenFields fs prefix m
      | VTime s fs \<Rightarrow> flattenFields fs prefix m
      | VMap t es \<Rightarrow> flattenMap es prefix m
      | VSlice t xs \<Rightarrow> flattenSlice xs prefix m
      | v \<Rightarrow> Inl (Error (''expected a struct or pointer to a struct, got '' @ kindName (kindOf v))))"
| "flattenFields [] prefix m = Inr m"
| "flattenFields ((field, fieldVal) # rest) prefix m =
     (if \<not> IsExported field then flattenFields rest prefix m
      else
        (let keyPrefix = joinPrefixKey prefix (getMapKey field) in
         case
           (case fieldVal of
              VSlice t xs \<Rightarrow>
                if xs = [] then Inr (mapSet m keyPrefix [])
                else flattenSlice xs keyPrefix m
            | VTime s tfs \<Rightarrow>
                if \<not> Anonymous field then Inr (mapSet m keyPrefix (Sprint fieldVal))
                else if shouldInline field then FlattenNestedStructs fieldVal prefix m
                else FlattenNestedStructs fieldVal keyPrefix m
            | VStruct fs \<Rightarrow>
                if shouldInline field then FlattenNestedStructs fieldVal prefix m
                else FlattenNestedStructs fieldVal keyPrefix m
            | VNilIface \<Rightarrow> Inr m
            | VIface elem \<Rightarrow>
                if kindOf elem = KStruct then FlattenNestedStructs elem prefix m else Inr m
            | VMap t es \<Rightarrow>
                if es = [] then Inr (mapSet m keyPrefix [])
                else if shouldInline field then flattenMap es prefix m
                else flattenMap es keyPrefix m
            | VNilPtr t \<Rightarrow> Inr (mapSet m keyPrefix ''<nil>'')
            | VPtr a underlying \<Rightarrow>
                if kindOf underlying = KStruct then
                  (if shouldInline field then FlattenNestedStructs underlying prefix m
                   else FlattenNestedStructs underlying keyPrefix m)
                else if kindOf underlying \<in> {KMap, KSlice, KArray} then
                  FlattenNestedStructs underlying keyPrefix m
                else Inr (mapSet m keyPrefix (Sprint underlying))
            | v \<Rightarrow> Inr (mapSet m keyPrefix (Sprint v)))
         of Inl e \<Rightarrow> Inl e
          | Inr m' \<Rightarrow> flattenFields rest prefix m'))"
| "flattenSlice xs keyPrefix m = flattenElems (sliceWidth (length xs)) 0 xs keyPrefix m"
| "flattenElems width j [] keyPrefix m = Inr m"
| "flattenElems width j (elem # rest) keyPrefix m =
     (let elemKey = joinPrefixKey keyPrefix (SprintfPad width j) in
      if kindOf elem = KStruct then
        (case FlattenNestedStructs elem elemKey m of
           Inl e \<Rightarrow> Inl e
         | Inr m' \<Rightarrow> flattenElems width (Suc j) rest keyPrefix m')
      else flattenElems width (Suc j) rest keyPrefix (mapSet m elemKey (Sprint elem)))"
| "flattenMap es prefix m = flattenEntries (sortSlice (\<lambda>a b. fst a < fst b) es) prefix m"
| "flattenEntries [] prefix m = Inr m"
| "flattenEntries ((keyStr, entry) # rest) prefix m =
     (let newKey = joinPrefixKey prefix keyStr;
          value = DerefPointers entry
      in if isComposite (kindOf value) then
           (case FlattenNestedStructs value newKey m of
              Inl e \<Rightarrow> Inl e
            | Inr m' \<Rightarrow> flattenEntries rest prefix m')
         else if kindOf value = KInvalid then
           Inl (Panic ''reflect: call of reflect.Value.Interface on zero Value'')
         else flattenEntries rest prefix (mapSet m newKey (Sprint value)))"
  by pat_completeness auto

termination
  apply (relation "inv_image (less_than <*lex*> less_than) flattenMeasure")
  apply (rule wf_inv_image, rule wf_lex_prod, rule wf_less_than, rule wf_less_than)
  apply (simp_all add: flattenMeasure_def size_list_sortSlice size_Deref_Struct size_Deref_Time size_Deref_Map
      size_Deref_Slice size_Deref_less)
  done

declare FlattenNestedStructs.simps [simp del] flattenSlice.simps [simp del]
  flattenMap.simps [simp del]

section \<open>The field-name generator\<close>

record pkgConfig =
  Sort :: bool
  Generate :: bool
  Headers :: "string list option"
  ExcludeNil :: bool
  IncludeZero :: bool

definition defaultConfig :: pkgConfig where
  "defaultConfig = \<lparr>Sort = False, Generate = False, Headers = None, ExcludeNil = False,
     IncludeZero = False\<rparr>"

text \<open>
  Modelled from the spec: \<open>MergeFields\<close> is called by \<open>GenerateFieldNames\<close> and its body is
  not part of the sources. The spec: union-merge into the baseline, preserving the baseline
  order and appending any new path from the candidate not already present, in candidate order.
\<close>

definition MergeFields :: "string list \<Rightarrow> string list \<Rightarrow> string list" where
  "MergeFields base cand = foldl (\<lambda>acc p. if p \<in> set acc then acc else acc @ [p]) base cand"

definition isNilRef :: "val \<Rightarrow> bool" where
  "isNilRef v = ((kindOf v = KPtr \<or> kindOf v = KInterface) \<and> IsNil v)"

text \<open>\<open>field.Type.Kind() == k || (field.Type.Kind() == reflect.Ptr && field.Type.Elem().Kind() == k)\<close>,
  read off the field's value, whose type is the declared type of the field.\<close>

fun typeIsOrPointsTo :: "kind \<Rightarrow> val \<Rightarrow> bool" where
  "typeIsOrPointsTo k (VPtr a w) = (kindOf w = k)"
| "typeIsOrPointsTo k (VNilPtr t) = (tyKind t = k)"
| "typeIsOrPointsTo k v = (kindOf v = k)"

fun isTimeType :: "val \<Rightarrow> bool" where
  "isTimeType (VTime s fs) = True"
| "isTimeType v = False"

fun tsize :: "ty \<Rightarrow> nat" where
  "tsize TString = 0"
| "tsize TInt = 0"
| "tsize TBool = 0"
| "tsize TTime = 4"
| "tsize TIface = 0"
| "tsize (TPtr t) = 0"
| "tsize (TSlice t) = Suc (tsize t)"
| "tsize (TArray n t) = Suc (tsize t + n * Suc (tsize t))"
| "tsize (TMap t) = 1"
| "tsize (TStruct fs) = Suc (sum_list (map (\<lambda>(f, t). Suc (tsize t)) fs))"

fun gsize :: "val \<Rightarrow> nat" where
  "gsize (VTime s fs) = Suc (sum_list (map (\<lambda>(f, v). Suc (gsize v)) fs))"
| "gsize (VIface w) = Suc (gsize w)"
| "gsize (VPtr a w) = Suc (gsize w)"
| "gsize (VSlice t xs) = Suc (tsize t + sum_list (map (\<lambda>x. Suc (gsize x)) xs))"
| "gsize (VArray t xs) = Suc (tsize t + sum_list (map (\<lambda>x. Suc (gsize x)) xs))"
| "gsize (VMap t es) = Suc (sum_list (map (\<lambda>(k, v). Suc (gsize v)) es))"
| "gsize (VStruct fs) = Suc (sum_list (map (\<lambda>(f, v). Suc (gsize v)) fs))"
| "gsize v = 0"

lemma gsize_zeroVal: "gsize (zeroVal t) \<le> tsize t"
proof (induction t)
  case (TArray n t)
  have "sum_list (map (\<lambda>x. Suc (gsize x)) (replicate n (zeroVal t))) = n * Suc (gsize (zeroVal t))"
    by (induction n) auto
  also have "\<dots> \<le> n * Suc (tsize t)" using TArray by simp
  finally show ?case by simp
next
  case (TStruct fs)
  have "sum_list (map (\<lambda>(f, v). Suc (gsize v)) (map (\<lambda>(f, t). (f, zeroVal t)) fs))
        \<le> sum_list (map (\<lambda>(f, t). Suc (tsize t)) fs)"
    using TStruct
  proof (induction fs)
    case Nil
    then show ?case by simp
  next
    case (Cons a fs)
    obtain f t where a: "a = (f, t)" by (cases a)
    have "gsize (zeroVal t) \<le> tsize t" using Cons.prems [of a t] a by simp
    moreover have "sum_list (map (\<lambda>(f, v). Suc (gsize v)) (map (\<lambda>(f, t). (f, zeroVal t)) fs))
        \<le> sum_list (map (\<lambda>(f, t). Suc (tsize t)) fs)"
      using Cons.IH Cons.prems by auto
    ultimately show ?case using a by simp
  qed
  then show ?case by simp
qed (simp_all add: unexported_def)

lemma gsize_DerefPointers: "gsize (DerefPointers v) \<le> gsize v"
  by (induction v rule: DerefPointers.induct) auto

lemma sum_insertLeft: "sum_list (map f (insertLeft lt x ps)) = (f x :: nat) + sum_list (map f ps)"
  by (induction ps) auto

lemma sum_foldl_insertLeft:
  "sum_list (map f (foldl (\<lambda>acc x. insertLeft lt x acc) acc xs))
     = (sum_list (map f acc) :: nat) + sum_list (map f xs)"
  by (induction xs arbitrary: acc) (auto simp: sum_insertLeft)

lemma sum_sortSlice: "sum_list (map f (sortSlice lt xs)) = (sum_list (map f xs) :: nat)"
  by (simp add: sortSlice_def sum_foldl_insertLeft rev_map [symmetric])


definition generateMeasure ::
  "((string \<times> val \<times> pkgConfig) + (string \<times> (StructField \<times> val) list \<times> pkgConfig)
     + (string \<times> val list \<times> pkgConfig))
   + ((string \<times> val list \<times> pkgConfig \<times> string list) + (string \<times> val)
     + (string \<times> (string \<times> val) list)) \<Rightarrow> nat \<times> nat" where
  "generateMeasure c =
     (case c of
        Inl (Inl (_, v, _)) \<Rightarrow> (gsize v, 1)
      | Inl (Inr (Inl (_, fs, _))) \<Rightarrow> (sum_list (map (\<lambda>(f, v). Suc (gsize v)) fs), 0)
      | Inl (Inr (Inr (_, xs, _))) \<Rightarrow> (sum_list (map (\<lambda>x. Suc (gsize x)) xs), 0)
      | Inr (Inl (_, xs, _, _)) \<Rightarrow> (sum_list (map (\<lambda>x. Suc (gsize x)) xs), 0)
      | Inr (Inr (Inl (_, v))) \<Rightarrow> (gsize v, 0)
      | Inr (Inr (Inr (_, es))) \<Rightarrow> (sum_list (map (\<lambda>(k, v). Suc (gsize v)) es), 0))"

lemma gsize_Deref_Map:
  "DerefPointers v = VMap t es \<Longrightarrow> sum_list (map (\<lambda>(k, v). Suc (gsize v)) es) < gsize v"
  using gsize_DerefPointers [of v] by simp

lemma gsize_Deref_Map_le:
  "DerefPointers v = VMap t es \<Longrightarrow>
     Suc (sum_list (map (\<lambda>(k, v). Suc (gsize v)) es)) < gsize v
     \<or> Suc (sum_list (map (\<lambda>(k, v). Suc (gsize v)) es)) = gsize v"
  using gsize_DerefPointers [of v] by auto

lemma gsize_Deref_Struct:
  "DerefPointers v = VStruct fs \<Longrightarrow> sum_list (map (\<lambda>(f, v). Suc (gsize v)) fs) < gsize v"
  using gsize_DerefPointers [of v] by simp

lemma gsize_Deref_Time:
  "DerefPointers v = VTime s fs \<Longrightarrow> sum_list (map (\<lambda>(f, v). Suc (gsize v)) fs) < gsize v"
  using gsize_DerefPointers [of v] by simp

lemma gsize_Deref_Slice:
  "DerefPointers v = VSlice t xs \<Longrightarrow> sum_list (map (\<lambda>x. Suc (gsize x)) xs) < gsize v"
  using gsize_DerefPointers [of v] by simp

lemma gsize_Deref_Array:
  "DerefPointers v = VArray t xs \<Longrightarrow> sum_list (map (\<lambda>x. Suc (gsize x)) xs) < gsize v"
  using gsize_DerefPointers [of v] by simp

lemma gsize_Deref_Slice_zero: "DerefPointers v = VSlice t xs \<Longrightarrow> gsize (zeroVal t) < gsize v"
  using gsize_DerefPointers [of v] gsize_zeroVal [of t] by simp

lemma gsize_Deref_Array_zero: "DerefPointers v = VArray t xs \<Longrightarrow> gsize (zeroVal t) < gsize v"
  using gsize_DerefPointers [of v] gsize_zeroVal [of t] by simp

lemma gsize_Deref_Iface: "DerefPointers v = VIface e \<Longrightarrow> gsize e < gsize v"
  using gsize_DerefPointers [of v] by simp

lemma gsize_Deref_Ptr: "DerefPointers v = VPtr a e \<Longrightarrow> gsize e < gsize v"
  using gsize_DerefPointers [of v] by simp

lemma gsize_Deref_less: "gsize v < n \<Longrightarrow> gsize (DerefPointers v) < n"
  using gsize_DerefPointers [of v] by simp

function (sequential)
  GenerateFieldNames :: "string \<Rightarrow> val \<Rightarrow> pkgConfig \<Rightarrow> failure + string list" and
  generateStructFields :: "string \<Rightarrow> (StructField \<times> val) list \<Rightarrow> pkgConfig \<Rightarrow> failure + string list" and
  generateBaseline :: "string \<Rightarrow> val list \<Rightarrow> pkgConfig \<Rightarrow> failure + string list" and
  generateMerged :: "string \<Rightarrow> val list \<Rightarrow> pkgConfig \<Rightarrow> string list \<Rightarrow> failure + string list" and
  generateMapFieldNames :: "string \<Rightarrow> val \<Rightarrow> failure + string list" and
  generateMapKeys :: "string \<Rightarrow> (string \<times> val) list \<Rightarrow> failure + string list"
where
  "GenerateFieldNames prefix val0 cfg =
     (case DerefPointers val0 of
        VMap t es \<Rightarrow> generateMapFieldNames prefix (VMap t es)
      | VSlice t xs \<Rightarrow>
          if xs = [] then Inl (Error ''GenerateFieldNames: empty slice or array'')
          else
            (case generateBaseline prefix xs cfg of
               Inl e \<Rightarrow> Inl e
             | Inr baseline \<Rightarrow>
                 (case generateMerged prefix xs cfg baseline of
                    Inl e \<Rightarrow> Inl e
                  | Inr mergedFields \<Rightarrow>
                      if mergedFields = [] then GenerateFieldNames prefix (zeroVal t) cfg
                      else Inr mergedFields))
      | VArray t xs \<Rightarrow>
          if xs = [] then Inl (Error ''GenerateFieldNames: empty slice or array'')
          else
            (case generateBaseline prefix xs cfg of
               Inl e \<Rightarrow> Inl e
             | Inr baseline \<Rightarrow>
                 (case generateMerged prefix xs cfg baseline of
                    Inl e \<Rightarrow> Inl e
                  | Inr mergedFields \<Rightarrow>
                      if mergedFields = [] then GenerateFieldNames prefix (zeroVal t) cfg
                      else Inr mergedFields))
      | VStruct fs \<Rightarrow> generateStructFields prefix fs cfg
      | VTime s fs \<Rightarrow> generateStructFields prefix fs cfg
      | VNilIface \<Rightarrow> Inr []
      | VIface e \<Rightarrow> GenerateFieldNames prefix e cfg
      | VNilPtr t \<Rightarrow> Inr []
      | VPtr a e \<Rightarrow> GenerateFieldNames prefix e cfg
      | VInvalid \<Rightarrow> Inr [prefix]
      | v \<Rightarrow> Inl (Error (''GenerateFieldNames: unsupported input type: '' @ kindName (kindOf v))))"
| "generateStructFields prefix [] cfg = Inr []"
| "generateStructFields prefix ((field, fieldVal) # rest) cfg =
     (let jsonT = getFirstTag (jsonTag field) in
      case
        (if isTimeType fieldVal \<and> \<not> Anonymous field then Inr [jsonT]
         else if jsonT = ''-'' then Inr []
         else if ExcludeNil cfg \<and> isNilRef fieldVal then Inr []
         else
           (let fieldKey = joinPrefixKey prefix jsonT in
            if shouldInline field then GenerateFieldNames prefix fieldVal cfg
            else if typeIsOrPointsTo KStruct fieldVal then GenerateFieldNames fieldKey fieldVal cfg
            else if typeIsOrPointsTo KMap fieldVal then generateMapFieldNames fieldKey fieldVal
            else Inr [fieldKey]))
      of Inl e \<Rightarrow> Inl e
       | Inr subFields \<Rightarrow>
           (case generateStructFields prefix rest cfg of
              Inl e \<Rightarrow> Inl e
            | Inr restFields \<Rightarrow> Inr (subFields @ restFields)))"
| "generateBaseline prefix [] cfg = Inr []"
| "generateBaseline prefix (mergeCandidate # rest) cfg =
     (if isNilRef mergeCandidate then generateBaseline prefix rest cfg
      else GenerateFieldNames prefix (DerefPointers mergeCandidate) cfg)"
| "generateMerged prefix [] cfg mergedFields = Inr mergedFields"
| "generateMerged prefix (mergeCandidate # rest) cfg mergedFields =
     (if isNilRef mergeCandidate then generateMerged prefix rest cfg mergedFields
      else
        (case GenerateFieldNames prefix (DerefPointers mergeCandidate) cfg of
           Inl e \<Rightarrow> Inl e
         | Inr subFields \<Rightarrow> generateMerged prefix rest cfg (MergeFields mergedFields subFields)))"
| "generateMapFieldNames prefix val0 =
     (case DerefPointers val0 of
        VMap t es \<Rightarrow> generateMapKeys prefix (sortSlice (\<lambda>a b. fst a < fst b) es)
      | v \<Rightarrow> Inl (Error (''generateMapFieldNames: expected a map, got '' @ kindName (kindOf v))))"
| "generateMapKeys prefix [] = Inr []"
| "generateMapKeys prefix ((keyStr, value) # rest) =
     (let fieldKey = joinPrefixKey prefix keyStr in
      case
        (if kindOf value = KMap \<or> kindOf value = KStruct
         then GenerateFieldNames fieldKey value defaultConfig
         else Inr [fieldKey])
      of Inl e \<Rightarrow> Inl e
       | Inr subFields \<Rightarrow>
           (case generateMapKeys prefix rest of
              Inl e \<Rightarrow> Inl e
            | Inr restFields \<Rightarrow> Inr (subFields @ restFields)))"
  by pat_completeness auto

termination
  apply (relation "inv_image (less_than <*lex*> less_than) generateMeasure")
  apply (rule wf_inv_image, rule wf_lex_prod, rule wf_less_than, rule wf_less_than)
  apply (simp_all add: generateMeasure_def sum_sortSlice gsize_Deref_Map gsize_Deref_Map_le gsize_Deref_Struct
      gsize_Deref_Time gsize_Deref_Slice gsize_Deref_Array gsize_Deref_Slice_zero
      gsize_Deref_Array_zero gsize_Deref_Iface gsize_Deref_Ptr gsize_Deref_less)
  done


declare GenerateFieldNames.simps [simp del] generateMapFieldNames.simps [simp del]

section \<open>\<open>FlattenStructFields\<close>\<close>

text \<open>
  \<open>pruneToHeaders\<close> is the block under \<open>if !cfg.Generate\<close>: it keeps the entries whose key
  equals or dotted-prefix-matches a header and then, only when fewer entries than headers
  were kept, stores the empty string under every header that is not itself a key.
\<close>

definition addMissing :: "fieldMap \<Rightarrow> string list \<Rightarrow> fieldMap" where
  "addMissing newMap hs =
     foldl (\<lambda>acc header. if header \<in> fst ` set acc then acc else mapSet acc header []) newMap hs"

definition pruneToHeaders :: "fieldMap \<Rightarrow> string list \<Rightarrow> fieldMap" where
  "pruneToHeaders m hs =
     (let newMap = filter (\<lambda>(key, value). list_ex (matchesHeader key) hs) m
      in if length newMap < length hs then addMissing newMap hs else newMap)"

definition FlattenStructFields :: "val \<Rightarrow> pkgConfig \<Rightarrow> failure + string list list" where
  "FlattenStructFields item cfg =
     (let val = DerefPointers (ValueOfInterface item) in
      if kindOf val \<noteq> KStruct then
        Inl (Error (''expected a struct or pointer to a struct, got '' @ kindName (kindOf val)))
      else
        (case (if Generate cfg \<and> (Headers cfg = None \<or> Headers cfg = Some [])
               then (case GenerateFieldNames [] val defaultConfig of
                       Inl e \<Rightarrow> Inl e
                     | Inr generatedFields \<Rightarrow> Inr (Some ([] @ generatedFields)))
               else Inr (Headers cfg)) of
           Inl e \<Rightarrow> Inl e
         | Inr headers \<Rightarrow>
             (case FlattenNestedStructs item [] [] of
                Inl e \<Rightarrow> Inl e
              | Inr fieldMap \<Rightarrow>
                  (case (if \<not> Generate cfg
                         then (case headers of
                                 None \<Rightarrow> Inl (Panic ''nil pointer dereference'')
                               | Some hs \<Rightarrow> Inr (pruneToHeaders fieldMap hs))
                         else Inr fieldMap) of
                     Inl e \<Rightarrow> Inl e
                   | Inr fieldMap' \<Rightarrow>
                       (case mapToSliceAndUpdateFields fieldMap' headers of
                          Inl e \<Rightarrow> Inl e
                        | Inr (fieldSlice, newHeaders) \<Rightarrow> Inr fieldSlice)))))"

text \<open>The options of a call: \<open>WithHeaders(&hs)\<close> alone, and \<open>WithGenerate()\<close> alone.\<close>

definition withHeaders :: "string list \<Rightarrow> pkgConfig" where
  "withHeaders hs = defaultConfig\<lparr>Headers := Some hs\<rparr>"

definition withGenerate :: pkgConfig where
  "withGenerate = defaultConfig\<lparr>Generate := True\<rparr>"

section \<open>\<open>TableToStructs\<close>\<close>
















section \<open>Example values\<close>

definition plainField :: "string \<Rightarrow> string \<Rightarrow> StructField" where
  "plainField n j = \<lparr>Name = n, jsonTag = j, urlTag = [], xmlTag = [], Anonymous = False\<rparr>"

text \<open>\<open>struct{Name string; Tags []string}{"Ann", []string{"x", "y"}}\<close>, without tags.\<close>

definition annValue :: val where
  "annValue = VStruct [(plainField ''Name'' [], VString ''Ann''),
                       (plainField ''Tags'' [], VSlice TString [VString ''x'', VString ''y''])]"

text \<open>\<open>struct{Tags []string `json:"tags"`}{[]string{"x", "y"}}\<close>.\<close>

definition tagsValue :: val where
  "tagsValue = VStruct [(plainField ''Tags'' ''tags'', VSlice TString [VString ''x'', VString ''y''])]"

text \<open>\<open>struct{Created time.Time `json:"created"`}{}\<close>.\<close>

definition createdValue :: val where
  "createdValue = VStruct [(plainField ''Created'' ''created'', zeroVal TTime)]"


text \<open>\<open>struct{P *[1]int `json:"p"`}{&[1]int{1}}\<close>.\<close>

definition ptrArrayValue :: val where
  "ptrArrayValue = VStruct [(plainField ''P'' ''p'', VPtr 1 (VArray TInt [VInt 1]))]"




section \<open>Properties\<close>

subsection \<open>Empty sequences\<close>

text \<open>
  C9. For every slice or array value of length zero, \<open>GenerateFieldNames\<close> returns the error
  for an empty sequence, whatever the prefix and the options; the result is the error alone,
  with no path list.
\<close>

theorem C9_empty_sequence_is_error:
  assumes "kindOf v = KSlice \<or> kindOf v = KArray" and "Len v = 0"
  shows "GenerateFieldNames prefix v cfg = Inl (Error ''GenerateFieldNames: empty slice or array'')"
  using assms by (cases v) (simp_all add: GenerateFieldNames.simps)

theorem C9_empty_sequence_is_error_witness:
  "(kindOf (VSlice TString []) = KSlice \<or> kindOf (VSlice TString []) = KArray)
   \<and> Len (VSlice TString []) = 0
   \<and> GenerateFieldNames ''items'' (VSlice TString []) defaultConfig
       = Inl (Error ''GenerateFieldNames: empty slice or array'')"
  using C9_empty_sequence_is_error [of "VSlice TString []" "''items''" defaultConfig] by simp

subsection \<open>Header completeness\<close>

text \<open>
  C1. The claim: with caller-supplied headers, every header that matches no flat key gets
  a row with the empty string. At the struct \<open>{Tags: ["x", "y"]}\<close> with the headers
  \<open>tags\<close> and \<open>missing\<close> two keys are kept for two headers, the guard
  \<open>len(newMap) < len(*cfg.Headers)\<close> is false, and the header \<open>missing\<close> gets no row.
\<close>

theorem C1_missing_header_gets_no_row:
  "FlattenStructFields tagsValue (withHeaders [''tags'', ''missing''])
     = Inr [[''tags.00'', ''x''], [''tags.01'', ''y'']]"
  by code_simp

subsection \<open>Timestamp fields\<close>

text \<open>
  C4. The claim: under a non-empty prefix the generator emits \<open>prefix.key\<close> for a
  non-anonymous \<open>time.Time\<close> field. Under the prefix \<open>p\<close> the generator emits the bare key
  \<open>created\<close>, while the flattener stores the value under \<open>p.created\<close>.
\<close>

theorem C4_time_field_path_has_no_prefix:
  "GenerateFieldNames ''p'' createdValue defaultConfig = Inr [''created'']
   \<and> FlattenNestedStructs createdValue ''p'' []
       = Inr [(''p.created'', ''0001-01-01 00:00:00 +0000 UTC'')]"
  by code_simp

subsection \<open>Scenario A\<close>

text \<open>
  C2, as stated: the generated path list of \<open>{Name: "Ann", Tags: ["x", "y"]}\<close> is
  \<open>name\<close>, \<open>tags.00\<close>, \<open>tags.01\<close>. The generator does not return that list.
\<close>

theorem C2_generated_paths_counterexample:
  "GenerateFieldNames [] annValue defaultConfig \<noteq> Inr [''name'', ''tags.00'', ''tags.01'']"
  by code_simp

text \<open>
  C2, amended: the flattened mapping of that value is \<open>name \<mapsto> Ann\<close>, \<open>tags.00 \<mapsto> x\<close>,
  \<open>tags.01 \<mapsto> y\<close>, \<open>FlattenStructFields\<close> with generation enabled returns these three rows
  in this order, and the generator returns one path for each of the two fields: the slice
  field contributes a single path, not one per element.
\<close>

theorem C2_scenario_A:
  "FlattenNestedStructs annValue [] []
     = Inr [(''name'', ''Ann''), (''tags.00'', ''x''), (''tags.01'', ''y'')]
   \<and> FlattenStructFields annValue withGenerate
     = Inr [[''name'', ''Ann''], [''tags.00'', ''x''], [''tags.01'', ''y'']]
   \<and> (case GenerateFieldNames [] annValue defaultConfig of
         Inl e \<Rightarrow> False | Inr paths \<Rightarrow> length paths = 2)"
  by code_simp

subsection \<open>Scenario C\<close>




subsection \<open>Index segments of sequence elements\<close>
























subsection \<open>Calls without headers\<close>

text \<open>
  C10, as stated: for every struct input a call with neither \<open>Generate\<close> nor \<open>Headers\<close>
  panics on the nil \<open>Headers\<close> pointer instead of returning a value or an error. A struct
  whose field points to an array makes the flattener fail first, and the call returns that
  error.
\<close>

theorem C10_error_before_pruning_counterexample:
  "FlattenStructFields ptrArrayValue defaultConfig
     = Inl (Error ''expected a struct or pointer to a struct, got array'')"
  by code_simp

text \<open>
  C10, amended: a call with neither \<open>Generate\<close> nor \<open>Headers\<close> never returns rows. For a
  struct input whose flattening succeeds it dereferences the nil \<open>Headers\<close> pointer in the
  pruning step and panics; when the flattening fails, the call ends with that failure.
\<close>

theorem C10_no_headers_no_value:
  assumes "\<not> Generate cfg" and "Headers cfg = None"
  shows "(\<forall>rows. FlattenStructFields item cfg \<noteq> Inr rows)
    \<and> (kindOf (DerefPointers (ValueOfInterface item)) = KStruct
         \<and> FlattenNestedStructs item [] [] = Inr m
        \<longrightarrow> FlattenStructFields item cfg = Inl (Panic ''nil pointer dereference''))
    \<and> (kindOf (DerefPointers (ValueOfInterface item)) = KStruct
         \<and> FlattenNestedStructs item [] [] = Inl e
        \<longrightarrow> FlattenStructFields item cfg = Inl e)"
  using assms by (auto simp: FlattenStructFields_def Let_def split: sum.splits)

theorem C10_no_headers_no_value_witness:
  "\<not> Generate defaultConfig \<and> Headers defaultConfig = None
   \<and> kindOf (DerefPointers (ValueOfInterface annValue)) = KStruct
   \<and> FlattenNestedStructs annValue [] []
       = Inr [(''name'', ''Ann''), (''tags.00'', ''x''), (''tags.01'', ''y'')]
   \<and> FlattenStructFields annValue defaultConfig = Inl (Panic ''nil pointer dereference'')"
proof -
  have h: "\<not> Generate defaultConfig" "Headers defaultConfig = None"
    by (simp_all add: defaultConfig_def)
  have k: "kindOf (DerefPointers (ValueOfInterface annValue)) = KStruct" by code_simp
  have f: "FlattenNestedStructs annValue [] []
       = Inr [(''name'', ''Ann''), (''tags.00'', ''x''), (''tags.01'', ''y'')]" by code_simp
  from C10_no_headers_no_value [OF h, of annValue] k f h show ?thesis by blast
qed

end
